theory Spec2Isabelle
  imports Complex_Main "HOL-Library.Char_ord" "HOL-Library.List_Lexorder"
begin

section \<open>Python values used by the pipeline\<close>

text \<open>
  The two modules \<^verbatim>\<open>lstm.py\<close> and \<^verbatim>\<open>predict.py\<close> work on Python lists and
  strings. A Python exception is a value of \<open>py_error\<close>; a computation that may raise
  returns \<open>py_error + 'a\<close>, with \<open>Inl\<close> for the exception. Strings are \<open>string\<close>;
  the model covers code points below 256.
\<close>

datatype py_error =
    IndexError
  | KeyError
  | ValueError
  | ZeroDivisionError
  | NameError
  | AttributeError
  | OverflowError
  | LibraryError

text \<open>
  \<open>LibraryError\<close> stands for an exception raised inside the music library
  (\<^verbatim>\<open>music21\<close>), whose code is not part of the two modules.
\<close>

text \<open>Sequencing of computations that may raise: the first exception wins.\<close>

definition bind_err :: "py_error + 'a \<Rightarrow> ('a \<Rightarrow> py_error + 'b) \<Rightarrow> py_error + 'b" where
  "bind_err m f = (case m of Inl e \<Rightarrow> Inl e | Inr v \<Rightarrow> f v)"

text \<open>
  \<^verbatim>\<open>xs[i]\<close> for a Python integer \<open>i\<close>: a negative index counts from the end, an index
  out of range raises IndexError.
\<close>

definition py_item :: "'a list \<Rightarrow> int \<Rightarrow> py_error + 'a" where
  "py_item xs i =
     (let n = int (length xs); k = (if i < 0 then n + i else i)
      in if 0 \<le> k \<and> k < n then Inr (xs ! nat k) else Inl IndexError)"

text \<open>
  \<^verbatim>\<open>xs[i:j]\<close>: each bound is counted from the end when negative and then clipped to
  \<open>[0, len(xs)]\<close>; the slice never raises.
\<close>

definition slice_bound :: "nat \<Rightarrow> int \<Rightarrow> nat" where
  "slice_bound n i = (if i < 0 then nat (max 0 (int n + i)) else min n (nat i))"

definition py_slice :: "'a list \<Rightarrow> int \<Rightarrow> int \<Rightarrow> 'a list" where
  "py_slice xs i j =
     (let a = slice_bound (length xs) i; b = slice_bound (length xs) j
      in take (b - a) (drop a xs))"

text \<open>\<^verbatim>\<open>d[k]\<close> on a dict: a missing key raises KeyError.\<close>

definition dict_get :: "('k \<rightharpoonup> 'v) \<Rightarrow> 'k \<Rightarrow> py_error + 'v" where
  "dict_get d k = (case d k of None \<Rightarrow> Inl KeyError | Some v \<Rightarrow> Inr v)"

text \<open>The comprehension \<^verbatim>\<open>[d[c] for c in xs]\<close>, left to right.\<close>

fun dict_get_all :: "('k \<rightharpoonup> 'v) \<Rightarrow> 'k list \<Rightarrow> py_error + 'v list" where
  "dict_get_all d [] = Inr []"
| "dict_get_all d (c # cs) =
     bind_err (dict_get d c) (\<lambda>v. bind_err (dict_get_all d cs) (\<lambda>vs. Inr (v # vs)))"

section \<open>Python strings\<close>

text \<open>
  The characters for which \<^verbatim>\<open>str.isspace\<close> holds, among the code points below 256:
  tab, line feed, vertical tab, form feed, carriage return, the four separators
  0x1C to 0x1F, space, next line (0x85) and no-break space (0xA0).
\<close>

definition is_space :: "char \<Rightarrow> bool" where
  "is_space c \<longleftrightarrow> c \<in> {CHR 0x09, CHR 0x0A, CHR 0x0B, CHR 0x0C, CHR 0x0D,
                       CHR 0x1C, CHR 0x1D, CHR 0x1E, CHR 0x1F, CHR 0x20, CHR 0x85, CHR 0xA0}"

text \<open>
  \<^verbatim>\<open>s.split()\<close> with no separator: runs of whitespace separate the fields, and no
  field is empty. \<open>cur\<close> is the field being read.
\<close>

fun split_fields :: "string \<Rightarrow> string \<Rightarrow> string list" where
  "split_fields cur [] = (if cur = [] then [] else [cur])"
| "split_fields cur (c # cs) =
     (if is_space c
      then (if cur = [] then split_fields [] cs else cur # split_fields [] cs)
      else split_fields (cur @ [c]) cs)"

definition py_split :: "string \<Rightarrow> string list" where
  "py_split s = split_fields [] s"

text \<open>
  \<^verbatim>\<open>s.split(sep)\<close> for a one-character separator: every occurrence separates, and
  empty fields are kept, so the result has at least one field.
\<close>

fun split_at :: "char \<Rightarrow> string \<Rightarrow> string \<Rightarrow> string list" where
  "split_at sep cur [] = [cur]"
| "split_at sep cur (c # cs) =
     (if c = sep then cur # split_at sep [] cs else split_at sep (cur @ [c]) cs)"

definition py_split_sep :: "char \<Rightarrow> string \<Rightarrow> string list" where
  "py_split_sep sep s = split_at sep [] s"

text \<open>\<^verbatim>\<open>sep.join(xs)\<close>\<close>

fun py_join :: "string \<Rightarrow> string list \<Rightarrow> string" where
  "py_join sep [] = []"
| "py_join sep [x] = x"
| "py_join sep (x # y # ys) = x @ sep @ py_join sep (y # ys)"

text \<open>\<^verbatim>\<open>str(i)\<close> for an integer: decimal digits, with a minus sign when negative.\<close>

definition digit_char :: "nat \<Rightarrow> char" where
  "digit_char n = ''0123456789'' ! n"

fun digits :: "nat \<Rightarrow> string" where
  "digits n = (if n < 10 then [digit_char n] else digits (n div 10) @ [digit_char (n mod 10)])"

declare digits.simps [simp del]

definition str_int :: "int \<Rightarrow> string" where
  "str_int i = (if i < 0 then CHR ''-'' # digits (nat (- i)) else digits (nat i))"

text \<open>\<^verbatim>\<open>'%s' % v\<close> for a value that is an integer or \<^verbatim>\<open>None\<close>.\<close>

definition str_opt_int :: "int option \<Rightarrow> string" where
  "str_opt_int v = (case v of None \<Rightarrow> ''None'' | Some i \<Rightarrow> str_int i)"

text \<open>\<^verbatim>\<open>'%s' % v\<close> for a value that is a string or \<^verbatim>\<open>None\<close>.\<close>

definition str_opt :: "string option \<Rightarrow> string" where
  "str_opt v = (case v of None \<Rightarrow> ''None'' | Some s \<Rightarrow> s)"

text \<open>
  \<^verbatim>\<open>int(s)\<close> for a string: surrounding white space is dropped, one sign is allowed, and
  the rest is decimal digits in which single underscores may separate digits.
  Anything else raises ValueError. The white space that \<^verbatim>\<open>int\<close> drops is narrower than
  \<^verbatim>\<open>str.isspace\<close>: tab to carriage return and space, and the two non-ASCII code
  points 0x85 and 0xA0; the separators 0x1C to 0x1F are not dropped.
\<close>

definition int_space :: "char \<Rightarrow> bool" where
  "int_space c \<longleftrightarrow> c \<in> {CHR 0x09, CHR 0x0A, CHR 0x0B, CHR 0x0C, CHR 0x0D,
                        CHR 0x20, CHR 0x85, CHR 0xA0}"

definition int_strip :: "string \<Rightarrow> string" where
  "int_strip s = rev (dropWhile int_space (rev (dropWhile int_space s)))"

definition is_digit :: "char \<Rightarrow> bool" where
  "is_digit c \<longleftrightarrow> c \<in> set ''0123456789''"

definition digit_val :: "char \<Rightarrow> nat" where
  "digit_val c = of_char c - 48"

fun int_body_ok :: "string \<Rightarrow> bool" where
  "int_body_ok [] = False"
| "int_body_ok [c] = is_digit c"
| "int_body_ok (c # u # cs) =
     (is_digit c \<and> (if u = CHR ''_'' then int_body_ok cs else int_body_ok (u # cs)))"

definition int_body_val :: "string \<Rightarrow> nat" where
  "int_body_val body = fold (\<lambda>c acc. acc * 10 + digit_val c) (filter is_digit body) 0"

definition py_int :: "string \<Rightarrow> py_error + int" where
  "py_int s =
     (let t = int_strip s;
          (negative, body) =
             (case t of
                [] \<Rightarrow> (False, [])
              | c # cs \<Rightarrow> if c = CHR ''-'' then (True, cs)
                         else if c = CHR ''+'' then (False, cs)
                         else (False, t))
      in if int_body_ok body
         then Inr (if negative then - int (int_body_val body) else int (int_body_val body))
         else Inl ValueError)"

section \<open>Random sources\<close>

text \<open>
  Both modules draw from a global random generator (\<^verbatim>\<open>random\<close>, and
  \<^verbatim>\<open>numpy.random\<close> in \<^verbatim>\<open>generate_notes\<close>). The generator is a stream of raw
  draws, passed in and returned: \<open>r 0\<close> is the next draw.
\<close>

type_synonym rng = "nat \<Rightarrow> nat"

definition next_raw :: "rng \<Rightarrow> nat \<times> rng" where
  "next_raw r = (r 0, \<lambda>n. r (Suc n))"

text \<open>\<^verbatim>\<open>random.randint(a, b)\<close>: an integer in \<open>[a, b]\<close>, both ends included.\<close>

definition randint :: "int \<Rightarrow> int \<Rightarrow> rng \<Rightarrow> py_error + (int \<times> rng)" where
  "randint a b r =
     (if b < a then Inl ValueError
      else (let (raw, r') = next_raw r in Inr (a + int raw mod (b - a + 1), r')))"

text \<open>\<^verbatim>\<open>numpy.random.randint(low, high)\<close>: an integer in \<open>[low, high)\<close>, \<open>high\<close> excluded.\<close>

definition np_randint :: "int \<Rightarrow> int \<Rightarrow> rng \<Rightarrow> py_error + (int \<times> rng)" where
  "np_randint low high r =
     (if high \<le> low then Inl ValueError
      else (let (raw, r') = next_raw r in Inr (low + int raw mod (high - low), r')))"

section \<open>Instruments\<close>

text \<open>
  An instrument object of the music library, as far as the two modules read it. The
  list \<^verbatim>\<open>instrument.Instrument.__subclasses__()\<close>, each class instantiated, is the
  \<open>catalog\<close> argument of the functions below.
\<close>

record instrument =
  instrumentName :: "string option"
  midiProgram :: "int option"

text \<open>\<^verbatim>\<open>predict.get_random_instrument\<close>\<close>

definition get_random_instrument ::
  "instrument list \<Rightarrow> rng \<Rightarrow> py_error + (instrument \<times> rng)" where
  "get_random_instrument all_instruments r =
     bind_err (randint 0 (int (length all_instruments) - 1) r) (\<lambda>(k, r').
     bind_err (py_item all_instruments k) (\<lambda>i. Inr (i, r')))"

section \<open>Vocabulary (lstm.py 23, 78-81; predict.py 36-38, 48, 100)\<close>

text \<open>
  \<^verbatim>\<open>sorted(set(item for item in notes))\<close>: the distinct tokens in ascending order.
  Tokens are strings, compared by code point, lexicographically.
\<close>

definition pitchnames_of :: "'a::linorder list \<Rightarrow> 'a list" where
  "pitchnames_of notes = sort (remdups notes)"

text \<open>\<^verbatim>\<open>len(set(notes))\<close>\<close>

definition n_vocab_of :: "'a list \<Rightarrow> nat" where
  "n_vocab_of notes = length (remdups notes)"

text \<open>
  \<^verbatim>\<open>dict((note, number) for number, note in enumerate(pitchnames))\<close>: pairs are stored
  in order, a later pair replacing an earlier one with the same key.
\<close>

definition note_to_int :: "'a list \<Rightarrow> ('a \<rightharpoonup> nat)" where
  "note_to_int pitchnames =
     fold (\<lambda>(number, note) d. d(note \<mapsto> number)) (enumerate 0 pitchnames) Map.empty"

text \<open>\<^verbatim>\<open>dict((number, note) for number, note in enumerate(pitchnames))\<close>\<close>

definition int_to_note :: "'a list \<Rightarrow> (nat \<rightharpoonup> 'a)" where
  "int_to_note pitchnames =
     fold (\<lambda>(number, note) d. d(number \<mapsto> note)) (enumerate 0 pitchnames) Map.empty"

section \<open>Sequence windowing (lstm.py 73-102; predict.py 45-66)\<close>

text \<open>
  The loop \<^verbatim>\<open>for i in range(0, len(notes) - sequence_length, 1)\<close> with its two
  accumulators. The window length is the constant 100 in \<^verbatim>\<open>lstm.py\<close> and 64 in
  \<^verbatim>\<open>predict.py\<close>; the loop body is the same, so the length is an argument here.
  The range is empty when \<open>len(notes) \<le> sequence_length\<close>, which truncating
  subtraction on \<open>nat\<close> gives as well.
\<close>

fun sequences_loop ::
  "nat \<Rightarrow> ('a \<rightharpoonup> nat) \<Rightarrow> 'a list \<Rightarrow> nat list \<Rightarrow> nat list list \<times> nat list
     \<Rightarrow> py_error + (nat list list \<times> nat list)" where
  "sequences_loop sequence_length d notes [] acc = Inr acc"
| "sequences_loop sequence_length d notes (i # rest) (network_input, network_output) =
     (let sequence_in = py_slice notes (int i) (int i + int sequence_length)
      in bind_err (py_item notes (int i + int sequence_length)) (\<lambda>sequence_out.
         bind_err (dict_get_all d sequence_in) (\<lambda>window.
         bind_err (dict_get d sequence_out) (\<lambda>target.
           sequences_loop sequence_length d notes rest
             (network_input @ [window], network_output @ [target])))))"

definition windowed_sequences ::
  "nat \<Rightarrow> ('a \<rightharpoonup> nat) \<Rightarrow> 'a list \<Rightarrow> py_error + (nat list list \<times> nat list)" where
  "windowed_sequences sequence_length d notes =
     sequences_loop sequence_length d notes [0 ..< length notes - sequence_length] ([], [])"

text \<open>
  The numeric end of \<^verbatim>\<open>prepare_sequences\<close>. \<^verbatim>\<open>numpy.reshape\<close> to
  \<open>(n_patterns, sequence_length, 1)\<close> keeps the entries and their order, and every
  window the loop built has \<open>sequence_length\<close> entries, so it does not raise. The array
  \<^verbatim>\<open>network_input / float(n_vocab)\<close> is kept as the integer entries and the divisor.
\<close>

type_synonym scaled_input = "nat list list \<times> nat"

text \<open>
  \<^verbatim>\<open>np_utils.to_categorical(y)\<close>: one row per target, of width \<open>max(y) + 1\<close>, with a one
  at the target's position and zeros elsewhere (the floats 1.0 and 0.0, written 1 and
  0). The maximum of an empty array raises ValueError.
\<close>

definition to_categorical :: "nat list \<Rightarrow> py_error + nat list list" where
  "to_categorical y =
     (if y = [] then Inl ValueError
      else (let num_classes = fold max y 0 + 1
            in Inr (map (\<lambda>v. map (\<lambda>j. if j = v then 1 else 0) [0 ..< num_classes]) y)))"

text \<open>
  \<^verbatim>\<open>lstm.prepare_sequences(notes, n_vocab)\<close> (lines 73-102): the vocabulary is built
  from \<open>notes\<close> itself; the result is the scaled input and the one-hot targets.
\<close>

definition lstm_prepare_sequences ::
  "'a::linorder list \<Rightarrow> nat \<Rightarrow> py_error + (scaled_input \<times> nat list list)" where
  "lstm_prepare_sequences notes n_vocab =
     (let pitchnames = pitchnames_of notes
      in bind_err (windowed_sequences 100 (note_to_int pitchnames) notes)
           (\<lambda>(network_input, network_output).
              bind_err (to_categorical network_output) (\<lambda>one_hot.
                Inr ((network_input, n_vocab), one_hot))))"

text \<open>
  \<^verbatim>\<open>train_network\<close>, lines 20-25, on the token list that \<^verbatim>\<open>get_notes\<close> returned.
\<close>

definition train_network_sequences ::
  "'a::linorder list \<Rightarrow> py_error + (scaled_input \<times> nat list list)" where
  "train_network_sequences notes =
     (let n_vocab = n_vocab_of notes in lstm_prepare_sequences notes n_vocab)"

text \<open>
  \<^verbatim>\<open>predict.prepare_sequences(notes, pitchnames, n_vocab)\<close> (lines 45-66): the vocabulary
  list is an argument; the targets are computed and dropped, and the result is
  \<open>network_input\<close> with its scaled copy.
\<close>

definition predict_prepare_sequences ::
  "'a list \<Rightarrow> 'a list \<Rightarrow> nat \<Rightarrow> py_error + (nat list list \<times> scaled_input)" where
  "predict_prepare_sequences notes pitchnames n_vocab =
     bind_err (windowed_sequences 64 (note_to_int pitchnames) notes)
       (\<lambda>(network_input, output). Inr (network_input, (network_input, n_vocab)))"

section \<open>Event extraction (lstm.py 31-71)\<close>

text \<open>
  A parsed file, as the loop over \<open>notes_to_parse\<close> sees it: a sequence of top-level
  elements, each a note, a part or something else. A part holds the result of
  \<^verbatim>\<open>getInstrument(returnDefault=False)\<close> and its elements. Pitches are held as the
  text of \<^verbatim>\<open>str(pitch)\<close>, quarter lengths and offsets as the text that \<^verbatim>\<open>'%s'\<close>
  prints for them.
\<close>

datatype element =
    NoteElement string string string
  | ChordElement "string list" string string
  | OtherElement

datatype top_element =
    TopNote string string string
  | TopPart "instrument option" "element list"
  | TopOther

text \<open>\<^verbatim>\<open>'%s %s %s %s' % (iid, pitches, quarterLength, offset)\<close>\<close>

definition format_token :: "int option \<Rightarrow> string \<Rightarrow> string \<Rightarrow> string \<Rightarrow> string" where
  "format_token iid pitches ql off =
     str_opt_int iid @ '' '' @ pitches @ '' '' @ ql @ '' '' @ off"

definition note_token :: "int option \<Rightarrow> string \<Rightarrow> string \<Rightarrow> string \<Rightarrow> string" where
  "note_token iid pitch ql off = format_token iid pitch ql off"

definition chord_token :: "int option \<Rightarrow> string list \<Rightarrow> string \<Rightarrow> string \<Rightarrow> string" where
  "chord_token iid pitches ql off = format_token iid (py_join '' '' pitches) ql off"

text \<open>The inner loop \<^verbatim>\<open>for element in _instrument\<close> (lines 62-66).\<close>

fun part_tokens :: "int option \<Rightarrow> element list \<Rightarrow> string list" where
  "part_tokens iid [] = []"
| "part_tokens iid (NoteElement pitch ql off # es) = note_token iid pitch ql off # part_tokens iid es"
| "part_tokens iid (ChordElement pitches ql off # es) =
     chord_token iid pitches ql off # part_tokens iid es"
| "part_tokens iid (OtherElement # es) = part_tokens iid es"

text \<open>
  One round of \<^verbatim>\<open>for _instrument in notes_to_parse\<close> (lines 50-66). Every round draws an
  instrument class first; a part whose instrument has a name replaces the drawn
  program by its own. \<^verbatim>\<open>getInstrument\<close> returning \<^verbatim>\<open>None\<close> makes the attribute access
  raise.
\<close>

definition top_step ::
  "instrument list \<Rightarrow> string list \<times> rng \<Rightarrow> top_element \<Rightarrow> py_error + (string list \<times> rng)" where
  "top_step ri st item =
     (let (notes, r) = st in
      bind_err (randint 0 (int (length ri) - 1) r) (\<lambda>(k, r').
      bind_err (py_item ri k) (\<lambda>drawn.
        let iid = midiProgram drawn in
        (case item of
           TopNote pitch ql off \<Rightarrow> Inr (notes @ [note_token iid pitch ql off], r')
         | TopPart declared es \<Rightarrow>
             (case declared of
                None \<Rightarrow> Inl AttributeError
              | Some ins \<Rightarrow>
                  (let iid' = (if \<not> (instrumentName ins = None) then midiProgram ins else iid)
                   in Inr (notes @ part_tokens iid' es, r')))
         | TopOther \<Rightarrow> Inr (notes, r')))))"

fun top_loop ::
  "instrument list \<Rightarrow> string list \<times> rng \<Rightarrow> top_element list \<Rightarrow> py_error + (string list \<times> rng)" where
  "top_loop ri st [] = Inr st"
| "top_loop ri st (item # items) = bind_err (top_step ri st item) (\<lambda>st'. top_loop ri st' items)"

text \<open>
  \<^verbatim>\<open>get_notes\<close>: the loop over the parsed files, in the order of the file listing. The
  result is the token list and the state of the random generator afterwards.
\<close>

fun get_notes_loop ::
  "instrument list \<Rightarrow> string list \<times> rng \<Rightarrow> top_element list list
     \<Rightarrow> py_error + (string list \<times> rng)" where
  "get_notes_loop ri st [] = Inr st"
| "get_notes_loop ri st (notes_to_parse # files) =
     bind_err (top_loop ri st notes_to_parse) (\<lambda>st'. get_notes_loop ri st' files)"

definition get_notes ::
  "instrument list \<Rightarrow> top_element list list \<Rightarrow> rng \<Rightarrow> py_error + (string list \<times> rng)" where
  "get_notes ri files r = get_notes_loop ri ([], r) files"

section \<open>Score reconstruction (predict.py 121-194)\<close>

text \<open>
  A note or chord object of the music library, as far as \<^verbatim>\<open>create_midi\<close> sets it: its
  pitch names, its quarter length and its offset. A quarter length is the library's
  default, the value of \<^verbatim>\<open>float(d)\<close>, or the quotient \<^verbatim>\<open>int(q[0]) / int(q[-1])\<close>, kept as
  its two integer operands; the library's setter is taken to accept a quotient.
  Floating-point values are of an arbitrary type \<open>'f\<close>.

  The division of two integers gives the nearest float and raises OverflowError when
  that is beyond the largest float, that is, when the quotient's magnitude reaches
  \<open>2^1024 - 2^970\<close>, half-way between the largest float and \<open>2^1024\<close>.
\<close>

datatype 'f quarter_length = QL_default | QL_float 'f | QL_quotient int int

record 'f m21_note =
  is_chord :: bool
  names :: "string list"
  quarterLength :: "'f quarter_length"
  offset :: "string option"

text \<open>
  \<^verbatim>\<open>note.Note(name)\<close> and \<^verbatim>\<open>chord.Chord(names)\<close>. The library rejects a name that is not
  a pitch; \<open>pitch_ok\<close> says which names it accepts.
\<close>

definition new_note :: "(string \<Rightarrow> bool) \<Rightarrow> string \<Rightarrow> py_error + 'f m21_note" where
  "new_note pitch_ok name =
     (if pitch_ok name
      then Inr \<lparr> is_chord = False, names = [name], quarterLength = QL_default, offset = None \<rparr>
      else Inl LibraryError)"

definition new_chord :: "(string \<Rightarrow> bool) \<Rightarrow> string list \<Rightarrow> py_error + 'f m21_note" where
  "new_chord pitch_ok ns =
     (if list_all pitch_ok ns
      then Inr \<lparr> is_chord = True, names = ns, quarterLength = QL_default, offset = None \<rparr>
      else Inl LibraryError)"

text \<open>
  \<^verbatim>\<open>set_duration(p, d, o)\<close>. \<open>float_literal d\<close> is the value of \<^verbatim>\<open>float(d)\<close> when the
  guarded assignment \<^verbatim>\<open>n.duration.quarterLength = float(d)\<close> goes through, and \<open>None\<close>
  when it raises. In the handler, a literal with a slash is divided; any other
  literal reaches \<^verbatim>\<open>duration.Duration(d)\<close>, and \<^verbatim>\<open>predict.py\<close> imports only
  \<^verbatim>\<open>instrument, note, stream, chord, meter\<close> from the library, so the name
  \<^verbatim>\<open>duration\<close> is unbound there and the lookup raises NameError.
\<close>

definition true_div_overflows :: "int \<Rightarrow> int \<Rightarrow> bool" where
  "true_div_overflows a b \<longleftrightarrow> (2 ^ 1024 - 2 ^ 970) * \<bar>b\<bar> \<le> \<bar>a\<bar>"

definition set_duration ::
  "(string \<Rightarrow> 'f option) \<Rightarrow> 'f m21_note \<Rightarrow> string \<Rightarrow> string \<Rightarrow> py_error + 'f m21_note" where
  "set_duration float_literal p d o' =
     (case float_literal d of
        Some v \<Rightarrow> Inr (p\<lparr> quarterLength := QL_float v, offset := Some o' \<rparr>)
      | None \<Rightarrow>
          if CHR ''/'' \<in> set d
          then (let q = py_split_sep CHR ''/'' d in
                bind_err (py_item q 0) (\<lambda>q_first.
                bind_err (py_int q_first) (\<lambda>a.
                bind_err (py_item q (- 1)) (\<lambda>q_last.
                bind_err (py_int q_last) (\<lambda>b.
                  if b = 0 then Inl ZeroDivisionError
                  else if true_div_overflows a b then Inl OverflowError
                  else Inr (p\<lparr> quarterLength := QL_quotient a b, offset := Some o' \<rparr>))))))
          else Inl NameError)"

text \<open>
  Lines 149-150: the fields of a token. The tuple is built left to right, so the first
  index out of range raises.
\<close>

definition decode_token :: "string \<Rightarrow> py_error + (string \<times> string list \<times> string \<times> string)" where
  "decode_token pattern =
     (let parts = py_split pattern in
      bind_err (py_item parts 0) (\<lambda>instrument_field.
      (let notes_field = py_slice parts 1 (- 2) in
       bind_err (py_item parts (- 2)) (\<lambda>duration_field.
       bind_err (py_item parts (- 1)) (\<lambda>offset_field.
         Inr (instrument_field, notes_field, duration_field, offset_field))))))"

text \<open>
  The dict \<open>instruments\<close> keeps its keys in insertion order, which is the order of the
  parts in the score: an association list with distinct keys.
\<close>

type_synonym 'f instruments = "(string \<times> 'f m21_note list) list"

definition register_instrument :: "string \<Rightarrow> 'f instruments \<Rightarrow> 'f instruments" where
  "register_instrument key instruments =
     (if key \<notin> set (map fst instruments) then instruments @ [(key, [])] else instruments)"

definition append_event :: "string \<Rightarrow> 'f m21_note \<Rightarrow> 'f instruments \<Rightarrow> 'f instruments" where
  "append_event key x instruments =
     map (\<lambda>(k, events). if k = key then (k, events @ [x]) else (k, events)) instruments"

text \<open>The body of the first loop of \<^verbatim>\<open>create_midi\<close> (lines 148-164).\<close>

definition decode_step ::
  "(string \<Rightarrow> 'f option) \<Rightarrow> (string \<Rightarrow> bool) \<Rightarrow> 'f instruments \<Rightarrow> string
     \<Rightarrow> py_error + 'f instruments" where
  "decode_step float_literal pitch_ok instruments pattern =
     bind_err (decode_token pattern) (\<lambda>(instrument_field, notes_field, duration_field, offset_field).
       (let registered = register_instrument instrument_field instruments in
        if length notes_field > 1
        then bind_err (new_chord pitch_ok notes_field) (\<lambda>c.
             bind_err (set_duration float_literal c duration_field offset_field) (\<lambda>c'.
               Inr (append_event instrument_field c' registered)))
        else if length notes_field = 1
        then bind_err (py_item notes_field 0) (\<lambda>name.
             bind_err (new_note pitch_ok name) (\<lambda>n.
             bind_err (set_duration float_literal n duration_field offset_field) (\<lambda>n'.
               Inr (append_event instrument_field n' registered))))
        else Inr registered))"

fun decode_loop ::
  "(string \<Rightarrow> 'f option) \<Rightarrow> (string \<Rightarrow> bool) \<Rightarrow> 'f instruments \<Rightarrow> string list
     \<Rightarrow> py_error + 'f instruments" where
  "decode_loop float_literal pitch_ok instruments [] = Inr instruments"
| "decode_loop float_literal pitch_ok instruments (pattern # rest) =
     bind_err (decode_step float_literal pitch_ok instruments pattern) (\<lambda>instruments'.
       decode_loop float_literal pitch_ok instruments' rest)"

text \<open>
  Lines 168-174: the instrument of a part. \<open>from_program\<close> is the library's
  \<^verbatim>\<open>instrumentFromMidiProgram\<close>, \<open>None\<close> where it raises. \<open>instrument_lookup\<close> is the
  guarded block: the bare \<^verbatim>\<open>except\<close> catches whatever \<^verbatim>\<open>int\<close> or the library raised,
  and \<open>None\<close> stands for that. The handler prints two lines, kept in \<open>printed\<close>, and calls
  \<^verbatim>\<open>get_random_instrument\<close>, outside the guarded block.
\<close>

definition instrument_lookup :: "(int \<Rightarrow> instrument option) \<Rightarrow> string \<Rightarrow> instrument option" where
  "instrument_lookup from_program instrument_key =
     (case py_int instrument_key of
        Inl e \<Rightarrow> None
      | Inr program \<Rightarrow> from_program program)"

definition resolve_instrument ::
  "(int \<Rightarrow> instrument option) \<Rightarrow> instrument list \<Rightarrow> string \<Rightarrow> rng \<times> string list
     \<Rightarrow> py_error + (instrument \<times> rng \<times> string list)" where
  "resolve_instrument from_program catalog instrument_key st =
     (let (r, printed) = st in
      case instrument_lookup from_program instrument_key of
        Some current_instrument \<Rightarrow> Inr (current_instrument, r, printed)
      | None \<Rightarrow>
          (let printed1 = printed @ [instrument_key @ '': WARNING: invalid instrument!''] in
           bind_err (get_random_instrument catalog r) (\<lambda>(current_instrument, r').
             Inr (current_instrument, r',
                  printed1 @ [str_opt (instrumentName current_instrument)
                            @ '': INFO: selected random!'']))))"

text \<open>
  A part of the score: the time signature \<^verbatim>\<open>3/4\<close>, the instrument, then the events
  in the order in which they were decoded.
\<close>

record 'f part =
  time_signature :: string
  part_instrument :: instrument
  part_events :: "'f m21_note list"

text \<open>
  The steps of \<^verbatim>\<open>create_midi\<close> that the music library carries out on the parts, each
  of which may raise: \<^verbatim>\<open>makeMeasures\<close> on a part, \<^verbatim>\<open>makeNotation\<close> on the score, and
  lines 193-194, which draw the two words of the file name and write the file
  (\<open>None\<close> when the file is written).
\<close>

record 'f score_library =
  makeMeasures :: "'f part \<Rightarrow> py_error + 'f part"
  makeNotation :: "'f part list \<Rightarrow> py_error + 'f part list"
  write_midi :: "'f part list \<Rightarrow> py_error option"

text \<open>Lines 187-188: \<^verbatim>\<open>for p in midi_stream.parts: p.makeMeasures(inPlace=True)\<close>.\<close>

fun measure_parts ::
  "('f part \<Rightarrow> py_error + 'f part) \<Rightarrow> 'f part list \<Rightarrow> py_error + 'f part list" where
  "measure_parts regroup [] = Inr []"
| "measure_parts regroup (p # ps) =
     bind_err (regroup p) (\<lambda>p'. bind_err (measure_parts regroup ps) (\<lambda>ps'. Inr (p' # ps')))"

text \<open>
  The second loop (lines 167-188): one part per instrument id, in the order of the
  dict. With \<^verbatim>\<open>args.optimizer\<close> set, every round regroups all parts assembled so far.
\<close>

fun assemble_parts ::
  "'f score_library \<Rightarrow> bool \<Rightarrow> (int \<Rightarrow> instrument option) \<Rightarrow> instrument list \<Rightarrow> 'f instruments
     \<Rightarrow> 'f part list \<times> rng \<times> string list \<Rightarrow> py_error + ('f part list \<times> rng \<times> string list)" where
  "assemble_parts lib optimizer from_program catalog [] st = Inr st"
| "assemble_parts lib optimizer from_program catalog ((instrument_key, events) # rest)
       (midi_stream, r, printed) =
     bind_err (resolve_instrument from_program catalog instrument_key (r, printed))
       (\<lambda>(current_instrument, r', printed').
          (let appended = midi_stream @ [\<lparr> time_signature = ''3/4'',
                                           part_instrument = current_instrument,
                                           part_events = events \<rparr>]
           in bind_err (if optimizer then measure_parts (makeMeasures lib) appended
                        else Inr appended)
                (\<lambda>midi_stream'.
                   assemble_parts lib optimizer from_program catalog rest
                     (midi_stream', r', printed'))))"

text \<open>
  \<^verbatim>\<open>create_midi\<close> (lines 140-194). The result is the score that was written, the state
  of the random generator after the parts were assembled, and the printed lines.
\<close>

definition create_midi ::
  "(string \<Rightarrow> 'f option) \<Rightarrow> (string \<Rightarrow> bool) \<Rightarrow> (int \<Rightarrow> instrument option) \<Rightarrow> instrument list
     \<Rightarrow> 'f score_library \<Rightarrow> bool \<Rightarrow> string list \<Rightarrow> rng
     \<Rightarrow> py_error + ('f part list \<times> rng \<times> string list)" where
  "create_midi float_literal pitch_ok from_program catalog lib optimizer prediction_output r =
     bind_err (decode_loop float_literal pitch_ok [] prediction_output) (\<lambda>instruments.
     bind_err (assemble_parts lib optimizer from_program catalog instruments ([], r, []))
       (\<lambda>(midi_stream, r', printed).
     bind_err (if optimizer then makeNotation lib midi_stream else Inr midi_stream) (\<lambda>score.
       (case write_midi lib score of
          Some e \<Rightarrow> Inl e
        | None \<Rightarrow> Inr (score, r', printed)))))"

section \<open>Generation (predict.py 95-119)\<close>

text \<open>
  The trained network is outside the two modules. \<open>model\<close> stands for one query:
  scaling the window by \<open>n_vocab\<close>, \<^verbatim>\<open>model.predict\<close> and \<^verbatim>\<open>numpy.argmax\<close>; it
  returns the selected index, or the exception the query raised. \<open>model_inputs\<close>
  records the windows handed to the model, in order; the source keeps no such list.
\<close>

record 'a gen_state =
  pattern :: "nat list"
  prediction_output :: "'a list"
  model_inputs :: "nat list list"

definition generate_step ::
  "(nat list \<Rightarrow> py_error + nat) \<Rightarrow> (nat \<rightharpoonup> 'a) \<Rightarrow> 'a gen_state \<Rightarrow> py_error + 'a gen_state" where
  "generate_step model i2n st =
     bind_err (model (pattern st)) (\<lambda>index.
     bind_err (dict_get i2n index) (\<lambda>result.
       (let appended = pattern st @ [index]
        in Inr \<lparr> pattern = py_slice appended 1 (int (length appended)),
                 prediction_output = prediction_output st @ [result],
                 model_inputs = model_inputs st @ [pattern st] \<rparr>)))"

text \<open>
  \<^verbatim>\<open>for note_index in range(N)\<close>; the source has \<open>N = 500\<close>. On the first round
  \<^verbatim>\<open>pattern.append(index)\<close> also changes the window inside \<open>network_input\<close>, which the
  function does not read again.
\<close>

fun generate_loop ::
  "(nat list \<Rightarrow> py_error + nat) \<Rightarrow> (nat \<rightharpoonup> 'a) \<Rightarrow> nat \<Rightarrow> 'a gen_state \<Rightarrow> py_error + 'a gen_state" where
  "generate_loop model i2n 0 st = Inr st"
| "generate_loop model i2n (Suc k) st =
     bind_err (generate_step model i2n st) (\<lambda>st'. generate_loop model i2n k st')"

text \<open>The seed position: \<^verbatim>\<open>numpy.random.randint(0, len(network_input)-1)\<close> (line 98).\<close>

definition pick_start :: "'w list \<Rightarrow> rng \<Rightarrow> py_error + (int \<times> rng)" where
  "pick_start network_input r = np_randint 0 (int (length network_input) - 1) r"

definition generate_notes ::
  "(nat list \<Rightarrow> py_error + nat) \<Rightarrow> nat list list \<Rightarrow> 'a list \<Rightarrow> rng \<Rightarrow> py_error + ('a list \<times> rng)" where
  "generate_notes model network_input pitchnames r =
     bind_err (pick_start network_input r) (\<lambda>(start, r').
     bind_err (py_item network_input start) (\<lambda>seed.
     bind_err (generate_loop model (int_to_note pitchnames) 500
                 \<lparr> pattern = seed, prediction_output = [], model_inputs = [] \<rparr>) (\<lambda>st.
       Inr (prediction_output st, r'))))"

section \<open>Auxiliary notions and example arguments\<close>

text \<open>
  A field of a token: a non-empty string without whitespace. The instrument id, each
  pitch name, the duration literal and the offset literal of an event are fields.
\<close>

definition field_ok :: "string \<Rightarrow> bool" where
  "field_ok s \<longleftrightarrow> s \<noteq> [] \<and> list_all (\<lambda>c. \<not> is_space c) s"

text \<open>
  A chain of windows in which each window is the one before it with the index the
  model selected for it appended and its first element dropped.
\<close>

fun slides :: "(nat list \<Rightarrow> py_error + nat) \<Rightarrow> nat list list \<Rightarrow> bool" where
  "slides model (w # w' # ws) =
     ((case model w of Inl e \<Rightarrow> False | Inr index \<Rightarrow> w' = tl (w @ [index]))
      \<and> slides model (w' # ws))"
| "slides model ws = True"

text \<open>
  A top-level element for which \<^verbatim>\<open>get_notes\<close> does not use the drawn instrument: a
  part whose instrument has a name, or an element that is neither a note nor a part.
  \<open>declared_tokens\<close> lists the tokens such an element contributes.
\<close>

fun names_instrument :: "top_element \<Rightarrow> bool" where
  "names_instrument (TopPart (Some ins) es) = (instrumentName ins \<noteq> None)"
| "names_instrument TopOther = True"
| "names_instrument item = False"

fun declared_tokens :: "top_element \<Rightarrow> string list" where
  "declared_tokens (TopPart (Some ins) es) = part_tokens (midiProgram ins) es"
| "declared_tokens item = []"

text \<open>
  Arguments for the examples. The library functions are arguments of the model; the
  examples fix them on the few values they use: three float literals, three pitch
  names, the programs 0 to 127, a catalog of three instrument classes, and library
  steps that leave the parts as they are and write the file. Two random sources: one
  that always draws 0, one that always draws 1.
\<close>

definition example_float :: "string \<Rightarrow> real option" where
  "example_float d =
     (if d = ''1.0'' then Some 1 else if d = ''0.5'' then Some (1 / 2)
      else if d = ''2.0'' then Some 2 else None)"

definition example_pitch_ok :: "string \<Rightarrow> bool" where
  "example_pitch_ok name \<longleftrightarrow> name \<in> set [''C4'', ''E4'', ''G4'']"

definition example_from_program :: "int \<Rightarrow> instrument option" where
  "example_from_program program =
     (if 0 \<le> program \<and> program < 128
      then Some \<lparr> instrumentName = Some ''Program'', midiProgram = Some program \<rparr>
      else None)"

definition example_catalog :: "instrument list" where
  "example_catalog =
     [\<lparr> instrumentName = Some ''Keyboard'', midiProgram = None \<rparr>,
      \<lparr> instrumentName = Some ''Organ'', midiProgram = Some 19 \<rparr>,
      \<lparr> instrumentName = Some ''StringInstrument'', midiProgram = Some 48 \<rparr>]"

definition example_library :: "real score_library" where
  "example_library = \<lparr> makeMeasures = Inr, makeNotation = Inr, write_midi = (\<lambda>score. None) \<rparr>"

definition draws_zero :: rng where
  "draws_zero n = 0"

definition draws_one :: rng where
  "draws_one n = 1"

section \<open>Properties of the sequence windowing\<close>

lemma py_slice_window:
  "i + L \<le> length xs \<Longrightarrow> py_slice xs (int i) (int i + int L) = take L (drop i xs)"
  by (simp add: py_slice_def slice_bound_def Let_def nat_add_distrib)

lemma py_item_nat:
  "k < length xs \<Longrightarrow> py_item xs (int k) = Inr (xs ! k)"
  by (simp add: py_item_def Let_def)

lemma py_item_window:
  "i + L < length xs \<Longrightarrow> py_item xs (int i + int L) = Inr (xs ! (i + L))"
  using py_item_nat [of "i + L" xs] by simp

lemma dict_get_all_Some:
  "map d cs = map Some vs \<Longrightarrow> dict_get_all d cs = Inr vs"
  by (induction cs arbitrary: vs) (auto simp: bind_err_def dict_get_def)

text \<open>
  The loop invariant: after the indices \<open>is\<close>, all of them with a complete window and
  a target inside the stream, the accumulators have grown by one window and one
  target per index, in order.
\<close>

lemma sequences_loop_ok:
  assumes ids: "map d notes = map Some ids"
    and rng: "\<forall>i \<in> set is. i + L < length notes"
  shows "sequences_loop L d notes is (inp, out) =
     Inr (inp @ map (\<lambda>i. take L (drop i ids)) is, out @ map (\<lambda>i. ids ! (i + L)) is)"
  using rng
proof (induction "is" arbitrary: inp out)
  case Nil
  then show ?case by simp
next
  case (Cons i rest)
  have len: "length ids = length notes"
    using ids by (metis length_map)
  have b: "i + L < length notes" using Cons.prems by simp
  have w: "map d (take L (drop i notes)) = map Some (take L (drop i ids))"
    using ids by (simp add: take_map [symmetric] drop_map [symmetric])
  have t: "d (notes ! (i + L)) = Some (ids ! (i + L))"
    using ids b len by (metis nth_map)
  have rest: "\<forall>i \<in> set rest. i + L < length notes" using Cons.prems by simp
  show ?case
    using b w t Cons.IH [OF rest]
    by (simp add: py_slice_window py_item_window dict_get_all_Some bind_err_def dict_get_def)
qed

lemma windowed_sequences_ok:
  assumes ids: "map d notes = map Some ids"
  shows "windowed_sequences L d notes =
      Inr (map (\<lambda>i. take L (drop i ids)) [0 ..< length ids - L],
           map (\<lambda>i. ids ! (i + L)) [0 ..< length ids - L])"
proof -
  have len: "length ids = length notes"
    using ids by (metis length_map)
  have "\<forall>i \<in> set [0 ..< length notes - L]. i + L < length notes"
    by (simp add: less_diff_conv)
  then show ?thesis
    unfolding windowed_sequences_def
    using sequences_loop_ok [OF ids, of "[0 ..< length notes - L]" L "[]" "[]"]
    by (simp add: len)
qed

text \<open>
  The vocabulary that \<^verbatim>\<open>lstm.prepare_sequences\<close> builds from \<open>notes\<close> has an id for
  every token of \<open>notes\<close>, so no lookup in its loop raises KeyError.
\<close>

lemma note_to_int_fold_dom:
  "dom (fold (\<lambda>(number, note) d. d(note \<mapsto> number)) (enumerate n ps) m) = dom m \<union> set ps"
  by (induction ps arbitrary: n m) auto

lemma dom_note_to_int: "dom (note_to_int ps) = set ps"
  by (simp add: note_to_int_def note_to_int_fold_dom)

lemma vocabulary_covers_notes:
  "\<exists>ids. map (note_to_int (pitchnames_of notes)) notes = map Some ids"
proof -
  have "\<forall>x \<in> set notes. \<exists>k. note_to_int (pitchnames_of notes) x = Some k"
    using dom_note_to_int [of "pitchnames_of notes"] by (auto simp: pitchnames_of_def)
  then have "map (note_to_int (pitchnames_of notes)) notes
               = map Some (map (\<lambda>x. the (note_to_int (pitchnames_of notes) x)) notes)"
    by auto
  then show ?thesis by blast
qed

lemma to_categorical_ok: "y \<noteq> [] \<Longrightarrow> \<exists>one_hot. to_categorical y = Inr one_hot \<and> length one_hot = length y"
  by (simp add: to_categorical_def Let_def)

lemma lstm_prepare_sequences_returns:
  assumes "100 < length notes"
  shows "\<exists>ids one_hot. map (note_to_int (pitchnames_of notes)) notes = map Some ids
       \<and> to_categorical (map (\<lambda>i. ids ! (i + 100)) [0 ..< length ids - 100]) = Inr one_hot
       \<and> lstm_prepare_sequences notes n_vocab =
           Inr ((map (\<lambda>i. take 100 (drop i ids)) [0 ..< length ids - 100], n_vocab), one_hot)"
proof -
  obtain ids where ids: "map (note_to_int (pitchnames_of notes)) notes = map Some ids"
    using vocabulary_covers_notes by blast
  have len: "length ids = length notes"
    using ids by (metis length_map)
  have "map (\<lambda>i. ids ! (i + 100)) [0 ..< length ids - 100] \<noteq> []"
    using assms len by simp
  then obtain one_hot where oh:
    "to_categorical (map (\<lambda>i. ids ! (i + 100)) [0 ..< length ids - 100]) = Inr one_hot"
    using to_categorical_ok by blast
  have "lstm_prepare_sequences notes n_vocab =
           Inr ((map (\<lambda>i. take 100 (drop i ids)) [0 ..< length ids - 100], n_vocab), one_hot)"
    using windowed_sequences_ok [OF ids, of 100] oh
    by (simp add: lstm_prepare_sequences_def bind_err_def)
  then show ?thesis using ids oh by blast
qed

text \<open>
  With at most 100 tokens the loop builds no sample, and the one-hot encoding of the
  empty target list raises.
\<close>

lemma lstm_prepare_sequences_short:
  assumes "length notes \<le> 100"
  shows "lstm_prepare_sequences notes n_vocab = Inl ValueError"
proof -
  obtain ids where ids: "map (note_to_int (pitchnames_of notes)) notes = map Some ids"
    using vocabulary_covers_notes by blast
  have len: "length ids = length notes"
    using ids by (metis length_map)
  show ?thesis
    using windowed_sequences_ok [OF ids, of 100] assms len
    by (simp add: lstm_prepare_sequences_def bind_err_def to_categorical_def)
qed

text \<open>
  C3. For a token stream whose ids are \<open>ids\<close> (every token has an id in the
  vocabulary \<open>d\<close>), of length \<open>M\<close>, and a window length \<open>L < M\<close>, the windowing loop
  returns exactly \<open>M - L\<close> windows and \<open>M - L\<close> targets; window \<open>i\<close> is the slice
  \<open>ids[i:i+L]\<close> and target \<open>i\<close> is \<open>ids[i+L]\<close>, the id that follows the window.
\<close>

theorem windowing_complete:
  assumes "map d notes = map Some ids" and "L < length ids"
  shows "\<exists>network_input network_output.
           windowed_sequences L d notes = Inr (network_input, network_output)
         \<and> length network_input = length ids - L
         \<and> length network_output = length ids - L
         \<and> (\<forall>i < length ids - L.
               network_input ! i = py_slice ids (int i) (int i + int L)
             \<and> network_output ! i = ids ! (i + L))"
  using windowed_sequences_ok [OF assms(1), of L]
  by (auto simp: py_slice_window)

theorem windowing_complete_witness:
  "map (note_to_int [''a'', ''b'']) [''a'', ''b'', ''b'', ''a''] = map Some [0, 1, 1, 0]
   \<and> 2 < length [0, 1, 1, 0 :: nat]
   \<and> (\<exists>network_input network_output.
           windowed_sequences 2 (note_to_int [''a'', ''b'']) [''a'', ''b'', ''b'', ''a'']
             = Inr (network_input, network_output)
         \<and> length network_input = length [0, 1, 1, 0 :: nat] - 2
         \<and> length network_output = length [0, 1, 1, 0 :: nat] - 2
         \<and> (\<forall>i < length [0, 1, 1, 0 :: nat] - 2.
               network_input ! i = py_slice [0, 1, 1, 0] (int i) (int i + int 2)
             \<and> network_output ! i = [0, 1, 1, 0] ! (i + 2)))"
proof -
  have h1: "map (note_to_int [''a'', ''b'']) [''a'', ''b'', ''b'', ''a''] = map Some [0, 1, 1, 0]"
    by (simp add: note_to_int_def)
  have h2: "2 < length [0, 1, 1, 0 :: nat]"
    by simp
  show ?thesis
    using h1 h2 windowing_complete [OF h1 h2] by blast
qed

text \<open>
  C9 (as the code computes it). A stream whose ids are \<open>[5,2,7,2,5,9,2,7]\<close>, windowed
  with length 3, gives five samples: the four windows starting at positions 0 to 3
  and the window \<open>[5,9,2]\<close> at position 4, whose target is the last id 7. The target
  of \<open>[2,5,9]\<close> is the id 2 that follows it.
\<close>

theorem example_windows:
  assumes "map d notes = map Some [5, 2, 7, 2, 5, 9, 2, 7]"
  shows "windowed_sequences 3 d notes =
           Inr ([[5, 2, 7], [2, 7, 2], [7, 2, 5], [2, 5, 9], [5, 9, 2]], [2, 5, 9, 2, 7])"
  using windowed_sequences_ok [OF assms, of 3]
  by (simp add: upt_conv_Cons)

lemma note_to_int_ten:
  "map (note_to_int [0, 1, 2, 3, 4, 5, 6, 7, 8, 9 :: nat]) [5, 2, 7, 2, 5, 9, 2, 7]
     = map Some [5, 2, 7, 2, 5, 9, 2, 7]"
  by (simp add: note_to_int_def)

theorem example_windows_witness:
  "windowed_sequences 3 (note_to_int [0, 1, 2, 3, 4, 5, 6, 7, 8, 9 :: nat])
       [5, 2, 7, 2, 5, 9, 2, 7] =
     Inr ([[5, 2, 7], [2, 7, 2], [7, 2, 5], [2, 5, 9], [5, 9, 2]], [2, 5, 9, 2, 7])"
  using example_windows [OF note_to_int_ten] .

text \<open>
  The four samples listed for this stream are not what the loop returns: with the
  vocabulary \<open>0..9\<close>, in which every token is its own id, the result differs.
\<close>

theorem example_windows_counterexample:
  "windowed_sequences 3 (note_to_int [0, 1, 2, 3, 4, 5, 6, 7, 8, 9 :: nat])
       [5, 2, 7, 2, 5, 9, 2, 7] \<noteq>
     Inr ([[5, 2, 7], [2, 7, 2], [7, 2, 5], [2, 5, 9]], [2, 5, 9, 7])"
  by (simp add: windowed_sequences_def upt_conv_Cons py_item_def py_slice_def slice_bound_def
        bind_err_def dict_get_def note_to_int_def)

section \<open>Properties of the token format\<close>

lemma split_fields_word:
  "list_all (\<lambda>c. \<not> is_space c) w \<Longrightarrow> split_fields cur (w @ rest) = split_fields (cur @ w) rest"
  by (induction w arbitrary: cur) auto

lemma split_fields_space:
  "cur \<noteq> [] \<Longrightarrow> split_fields cur (CHR '' '' # rest) = cur # split_fields [] rest"
  by (simp add: is_space_def)

lemma py_split_join:
  "list_all field_ok fs \<Longrightarrow> py_split (py_join '' '' fs) = fs"
  unfolding py_split_def
proof (induction "'' ''" fs rule: py_join.induct)
  case 1
  then show ?case by simp
next
  case (2 x)
  then show ?case
    using split_fields_word [of x "[]" "[]"] by (simp add: field_ok_def)
next
  case (3 x y ys)
  have "split_fields [] (x @ '' '' @ py_join '' '' (y # ys))
          = split_fields x ('' '' @ py_join '' '' (y # ys))"
    using 3 split_fields_word [of x "[]"] by (simp add: field_ok_def)
  also have "\<dots> = x # split_fields [] (py_join '' '' (y # ys))"
    using 3 split_fields_space [of x] by (simp add: field_ok_def)
  finally show ?case using 3 by simp
qed

lemma py_join_snoc:
  "xs \<noteq> [] \<Longrightarrow> py_join sep (xs @ [y]) = py_join sep xs @ sep @ y"
  by (induction sep xs rule: py_join.induct) auto

lemma py_join_Cons:
  "xs \<noteq> [] \<Longrightarrow> py_join sep (x # xs) = x @ sep @ py_join sep xs"
  by (cases xs) auto

lemma format_token_join:
  "pitches \<noteq> [] \<Longrightarrow>
   chord_token iid pitches ql off = py_join '' '' (str_opt_int iid # pitches @ [ql, off])"
proof -
  assume ne: "pitches \<noteq> []"
  have "py_join '' '' (pitches @ [ql, off]) = py_join '' '' pitches @ '' '' @ ql @ '' '' @ off"
    using py_join_snoc [of "pitches @ [ql]" "'' ''" off] py_join_snoc [OF ne, of "'' ''" ql]
    by simp
  then show ?thesis
    using ne by (simp add: chord_token_def format_token_def py_join_Cons)
qed

lemma digit_char_is_digit: "n < 10 \<Longrightarrow> is_digit (digit_char n)"
  by (auto simp add: is_digit_def digit_char_def less_Suc_eq numeral_eq_Suc)

lemma digit_val_char: "n < 10 \<Longrightarrow> digit_val (digit_char n) = n"
  by (auto simp add: digit_val_def digit_char_def less_Suc_eq numeral_eq_Suc)

lemma is_digit_not_space: "is_digit c \<Longrightarrow> \<not> is_space c"
  by (auto simp: is_digit_def is_space_def)

lemma is_digit_not_sign: "is_digit c \<Longrightarrow> c \<noteq> CHR ''-'' \<and> c \<noteq> CHR ''+'' \<and> c \<noteq> CHR ''_''"
  by (auto simp: is_digit_def)

lemma digits_all: "list_all is_digit (digits n) \<and> digits n \<noteq> []"
proof (induction n rule: digits.induct)
  case (1 n)
  show ?case
  proof (cases "n < 10")
    case True
    then show ?thesis by (simp add: digits.simps [of n] digit_char_is_digit)
  next
    case False
    then show ?thesis using 1 by (simp add: digits.simps [of n] digit_char_is_digit)
  qed
qed

lemma int_body_ok_digits: "list_all is_digit s \<Longrightarrow> s \<noteq> [] \<Longrightarrow> int_body_ok s"
  by (induction s rule: int_body_ok.induct) (auto simp: is_digit_not_sign)

lemma int_body_val_snoc:
  "list_all is_digit s \<Longrightarrow> is_digit c \<Longrightarrow> int_body_val (s @ [c]) = int_body_val s * 10 + digit_val c"
  by (simp add: int_body_val_def list_all_iff)

lemma int_body_val_digits: "int_body_val (digits n) = n"
proof (induction n rule: digits.induct)
  case (1 n)
  show ?case
  proof (cases "n < 10")
    case True
    then show ?thesis
      by (simp add: digits.simps [of n] int_body_val_def digit_char_is_digit digit_val_char)
  next
    case False
    then show ?thesis
      using 1 digits_all [of "n div 10"]
      by (simp add: digits.simps [of n] int_body_val_snoc digit_char_is_digit digit_val_char)
  qed
qed

lemma int_space_is_space: "int_space c \<Longrightarrow> is_space c"
  by (auto simp: int_space_def is_space_def)

lemma int_strip_id: "list_all (\<lambda>c. \<not> is_space c) s \<Longrightarrow> int_strip s = s"
proof -
  assume "list_all (\<lambda>c. \<not> is_space c) s"
  then have a: "list_all (\<lambda>c. \<not> int_space c) s"
    using int_space_is_space by (auto simp: list_all_iff)
  have d: "\<And>xs. list_all (\<lambda>c. \<not> int_space c) xs \<Longrightarrow> dropWhile int_space xs = xs"
    by (case_tac xs) auto
  have "list_all (\<lambda>c. \<not> int_space c) (rev s)" using a by (simp add: list_all_iff)
  then show ?thesis using a by (simp add: int_strip_def d)
qed

lemma digits_no_space: "list_all (\<lambda>c. \<not> is_space c) (digits n)"
  using digits_all [of n] by (auto simp: list_all_iff is_digit_not_space)

lemma py_int_unsigned:
  assumes "list_all is_digit s" and "s \<noteq> []"
  shows "py_int s = Inr (int (int_body_val s))"
proof -
  have ns: "list_all (\<lambda>c. \<not> is_space c) s"
    using assms(1) by (auto simp: list_all_iff is_digit_not_space)
  have strip: "int_strip s = s" by (rule int_strip_id [OF ns])
  obtain c cs where s: "s = c # cs"
    using assms(2) by (cases s) auto
  have c: "c \<noteq> CHR ''-''" "c \<noteq> CHR ''+''"
    using assms(1) s is_digit_not_sign by auto
  have ok: "int_body_ok s" by (rule int_body_ok_digits [OF assms])
  show ?thesis
    unfolding py_int_def strip Let_def using c ok by (simp add: s)
qed

lemma py_int_negative:
  assumes "list_all is_digit s" and "s \<noteq> []"
  shows "py_int (CHR ''-'' # s) = Inr (- int (int_body_val s))"
proof -
  have "\<not> is_space CHR ''-''" by (simp add: is_space_def)
  then have ns: "list_all (\<lambda>c. \<not> is_space c) (CHR ''-'' # s)"
    using assms(1) by (auto simp: list_all_iff is_digit_not_space)
  have strip: "int_strip (CHR ''-'' # s) = CHR ''-'' # s" by (rule int_strip_id [OF ns])
  have ok: "int_body_ok s" by (rule int_body_ok_digits [OF assms])
  show ?thesis
    unfolding py_int_def strip Let_def using ok by simp
qed

lemma py_int_str_int: "py_int (str_int i) = Inr i"
  using digits_all [of "nat i"] digits_all [of "nat (- i)"]
  by (simp add: str_int_def py_int_unsigned py_int_negative int_body_val_digits)

lemma field_ok_str_opt_int: "field_ok (str_opt_int iid)"
proof (cases iid)
  case None
  then show ?thesis by (simp add: str_opt_int_def field_ok_def is_space_def)
next
  case (Some i)
  then show ?thesis
    using digits_all digits_no_space
    by (simp add: str_opt_int_def field_ok_def str_int_def is_space_def)
qed

lemma py_item_from_end:
  "0 < k \<Longrightarrow> k \<le> length xs \<Longrightarrow> py_item xs (- int k) = Inr (xs ! (length xs - k))"
  by (auto simp: py_item_def Let_def nat_diff_distrib')

lemma py_item_from_end_short:
  "length xs < k \<Longrightarrow> py_item xs (- int k) = Inl IndexError"
  by (auto simp: py_item_def Let_def)

lemma slice_bound_from_end: "0 < k \<Longrightarrow> slice_bound n (- int k) = n - k"
  by (auto simp: slice_bound_def nat_diff_distrib')

lemma py_slice_middle:
  "py_slice xs 1 (- 2) = take (length xs - 3) (drop 1 xs)"
proof -
  have "slice_bound (length xs) (- int 2) = length xs - 2"
    by (rule slice_bound_from_end) simp
  moreover have "slice_bound (length xs) 1 = min (length xs) 1"
    by (simp add: slice_bound_def)
  ultimately show ?thesis
    by (cases xs) (simp_all add: py_slice_def Let_def numeral_2_eq_2)
qed

lemma decode_fields:
  assumes "parts = f0 # pitches @ [ql, off]"
  shows "py_item parts 0 = Inr f0" and "py_slice parts 1 (- 2) = pitches"
    and "py_item parts (- 2) = Inr ql" and "py_item parts (- 1) = Inr off"
proof -
  show "py_item parts 0 = Inr f0"
    using assms by (simp add: py_item_def)
  show "py_slice parts 1 (- 2) = pitches"
    using assms by (simp add: py_slice_middle)
  show "py_item parts (- 2) = Inr ql"
    using py_item_from_end [of 2 parts] assms by (simp add: nth_append)
  show "py_item parts (- 1) = Inr off"
    using py_item_from_end [of 1 parts] assms by (simp add: nth_append)
qed

lemma note_token_one_pitch: "note_token iid pitch ql off = chord_token iid [pitch] ql off"
  by (simp add: note_token_def chord_token_def)

text \<open>
  C1. An event with an instrument id, a non-empty sequence of pitch names, a duration
  literal and an offset literal, each a field, is recovered from its token: the split
  gives the text of the instrument id first, the pitch names in order, and the two
  literals last, unchanged; and \<^verbatim>\<open>int\<close> reads the instrument id back from its text.
  This holds for the token of a note, which has one pitch, and for the token of a
  chord.
\<close>

theorem token_round_trip:
  assumes "field_ok pitch" and "pitches \<noteq> []" and "list_all field_ok pitches"
    and "field_ok ql" and "field_ok off"
  shows "decode_token (note_token iid pitch ql off) = Inr (str_opt_int iid, [pitch], ql, off)
       \<and> decode_token (chord_token iid pitches ql off) = Inr (str_opt_int iid, pitches, ql, off)
       \<and> (\<forall>i. iid = Some i \<longrightarrow> py_int (str_opt_int iid) = Inr i)"
proof -
  have chord: "decode_token (chord_token iid ps ql off) = Inr (str_opt_int iid, ps, ql, off)"
    if ne: "ps \<noteq> []" and ok: "list_all field_ok ps" for ps
  proof -
    have "list_all field_ok (str_opt_int iid # ps @ [ql, off])"
      using ok assms(4,5) field_ok_str_opt_int by simp
    then have "py_split (chord_token iid ps ql off) = str_opt_int iid # ps @ [ql, off]"
      using format_token_join [OF ne] py_split_join by simp
    then show ?thesis
      using decode_fields [of "str_opt_int iid # ps @ [ql, off]" "str_opt_int iid" ps ql off]
      by (simp add: decode_token_def bind_err_def Let_def)
  qed
  have single: "decode_token (note_token iid pitch ql off) = Inr (str_opt_int iid, [pitch], ql, off)"
    using chord [of "[pitch]"] assms(1) by (simp add: note_token_one_pitch)
  show ?thesis
    using single chord [OF assms(2,3)] by (simp add: str_opt_int_def py_int_str_int)
qed

theorem token_round_trip_witness:
  "field_ok ''C4'' \<and> [''C4'', ''E4'', ''G4''] \<noteq> [] \<and> list_all field_ok [''C4'', ''E4'', ''G4'']
   \<and> field_ok ''1/3'' \<and> field_ok ''2.0''
   \<and> note_token (Some 12) ''C4'' ''1/3'' ''2.0'' = ''12 C4 1/3 2.0''
   \<and> decode_token ''12 C4 1/3 2.0'' = Inr (''12'', [''C4''], ''1/3'', ''2.0'')
   \<and> chord_token (Some 12) [''C4'', ''E4'', ''G4''] ''1/3'' ''2.0'' = ''12 C4 E4 G4 1/3 2.0''
   \<and> decode_token ''12 C4 E4 G4 1/3 2.0'' = Inr (''12'', [''C4'', ''E4'', ''G4''], ''1/3'', ''2.0'')
   \<and> py_int ''12'' = Inr 12"
proof -
  have h0: "field_ok ''C4''" by (simp add: field_ok_def is_space_def)
  have h1: "[''C4'', ''E4'', ''G4''] \<noteq> []" by simp
  have h2: "list_all field_ok [''C4'', ''E4'', ''G4'']"
    by (simp add: field_ok_def is_space_def)
  have h3: "field_ok ''1/3''" by (simp add: field_ok_def is_space_def)
  have h4: "field_ok ''2.0''" by (simp add: field_ok_def is_space_def)
  have id: "str_opt_int (Some 12) = ''12''"
    by (simp add: str_opt_int_def str_int_def digits.simps [of 12] digits.simps [of "Suc 0"]
          digit_char_def)
  have ntok: "note_token (Some 12) ''C4'' ''1/3'' ''2.0'' = ''12 C4 1/3 2.0''"
    by (simp add: note_token_def format_token_def id)
  have tok: "chord_token (Some 12) [''C4'', ''E4'', ''G4''] ''1/3'' ''2.0'' = ''12 C4 E4 G4 1/3 2.0''"
    by (simp add: chord_token_def format_token_def id)
  show ?thesis
    using h0 h1 h2 h3 h4 ntok tok token_round_trip [OF h0 h1 h2 h3 h4, of "Some 12"]
    by (simp add: id)
qed

section \<open>Properties of the generation loop\<close>

lemma py_slice_drop_first:
  "py_slice (xs @ [x]) 1 (int (length (xs @ [x]))) = tl (xs @ [x])"
  by (cases xs) (simp_all add: py_slice_def slice_bound_def Let_def)

lemma generate_step_ok:
  assumes "model (pattern st) = Inr k" and "i2n k = Some v"
  shows "generate_step model i2n st =
           Inr \<lparr> pattern = tl (pattern st @ [k]),
                 prediction_output = prediction_output st @ [v],
                 model_inputs = model_inputs st @ [pattern st] \<rparr>"
  using assms py_slice_drop_first [of "pattern st" k]
  by (simp add: generate_step_def bind_err_def dict_get_def Let_def)

lemma generate_loop_chain:
  assumes ok: "\<forall>w. length w = L \<longrightarrow> (\<exists>k v. model w = Inr k \<and> i2n k = Some v)"
    and len: "length (pattern st) = L"
  shows "\<exists>st' ws. generate_loop model i2n N st = Inr st'
           \<and> length (pattern st') = L
           \<and> length (prediction_output st') = length (prediction_output st) + N
           \<and> model_inputs st' = model_inputs st @ ws
           \<and> length ws = N \<and> (\<forall>w \<in> set ws. length w = L)
           \<and> hd (ws @ [pattern st']) = pattern st
           \<and> slides model (ws @ [pattern st'])"
  using len
proof (induction N arbitrary: st)
  case 0
  then show ?case by simp
next
  case (Suc N)
  obtain k v where kv: "model (pattern st) = Inr k" "i2n k = Some v"
    using ok Suc.prems by blast
  define st1 where "st1 = \<lparr> pattern = tl (pattern st @ [k]),
                 prediction_output = prediction_output st @ [v],
                 model_inputs = model_inputs st @ [pattern st] \<rparr>"
  have step: "generate_step model i2n st = Inr st1"
    unfolding st1_def using kv by (rule generate_step_ok)
  have "length (pattern st1) = L"
    using Suc.prems by (simp add: st1_def)
  from Suc.IH [OF this] obtain st' ws where r:
    "generate_loop model i2n N st1 = Inr st'" "length (pattern st') = L"
    "length (prediction_output st') = length (prediction_output st1) + N"
    "model_inputs st' = model_inputs st1 @ ws" "length ws = N" "\<forall>w \<in> set ws. length w = L"
    "hd (ws @ [pattern st']) = pattern st1" "slides model (ws @ [pattern st'])"
    by blast
  obtain c cs where chain: "ws @ [pattern st'] = c # cs"
    by (cases "ws @ [pattern st']") auto
  have c: "c = tl (pattern st @ [k])"
    using r(7) chain by (simp add: st1_def)
  have "generate_loop model i2n (Suc N) st = Inr st'"
    using step r(1) by (simp add: bind_err_def)
  moreover have "length (prediction_output st') = length (prediction_output st) + Suc N"
    using r(3) by (simp add: st1_def)
  moreover have "model_inputs st' = model_inputs st @ (pattern st # ws)"
    using r(4) by (simp add: st1_def)
  moreover have "length (pattern st # ws) = Suc N" using r(5) by simp
  moreover have "\<forall>w \<in> set (pattern st # ws). length w = L" using r(6) Suc.prems by simp
  moreover have "hd ((pattern st # ws) @ [pattern st']) = pattern st" by simp
  moreover have "slides model ((pattern st # ws) @ [pattern st'])"
    using r(8) kv(1) c by (simp add: chain)
  ultimately show ?case using r(2) by blast
qed

text \<open>
  C2. From a seed window of length \<open>L\<close>, with a model that answers every window of
  length \<open>L\<close> by an index of the vocabulary, the loop of \<open>N\<close> rounds returns: it has
  queried the model exactly \<open>N\<close> times, every queried window has length \<open>L\<close>, the
  output has exactly \<open>N\<close> elements, and the window left at the end has length \<open>L\<close>.
  The first queried window is the seed, and each later window is the one before it
  with the selected index appended and the oldest element dropped.
\<close>

theorem generator_length:
  assumes "\<forall>w. length w = length seed \<longrightarrow> (\<exists>k v. model w = Inr k \<and> i2n k = Some v)"
  shows "\<exists>st. generate_loop model i2n N
                 \<lparr> pattern = seed, prediction_output = [], model_inputs = [] \<rparr> = Inr st
             \<and> length (prediction_output st) = N
             \<and> length (model_inputs st) = N
             \<and> (\<forall>w \<in> set (model_inputs st). length w = length seed)
             \<and> length (pattern st) = length seed
             \<and> hd (model_inputs st @ [pattern st]) = seed
             \<and> slides model (model_inputs st @ [pattern st])"
  using generate_loop_chain [OF assms, of "\<lparr> pattern = seed, prediction_output = [], model_inputs = [] \<rparr>" N]
  by auto

lemma int_to_note_two: "k < 2 \<Longrightarrow> int_to_note [''a'', ''b''] k = Some ([''a'', ''b''] ! k)"
  by (auto simp: int_to_note_def less_Suc_eq numeral_2_eq_2)

theorem generator_length_witness:
  "\<exists>st. generate_loop (\<lambda>w. Inr (sum_list w mod 2)) (int_to_note [''a'', ''b'']) 3
                 \<lparr> pattern = [0, 1], prediction_output = [], model_inputs = [] \<rparr> = Inr st
             \<and> length (prediction_output st) = 3
             \<and> length (model_inputs st) = 3
             \<and> (\<forall>w \<in> set (model_inputs st). length w = length [0, 1 :: nat])
             \<and> length (pattern st) = length [0, 1 :: nat]
             \<and> hd (model_inputs st @ [pattern st]) = [0, 1]
             \<and> slides (\<lambda>w. Inr (sum_list w mod 2)) (model_inputs st @ [pattern st])"
proof -
  have h: "\<forall>w. length w = length [0, 1 :: nat] \<longrightarrow>
        (\<exists>k v. (\<lambda>w. Inr (sum_list w mod 2)) w = (Inr k :: py_error + nat)
               \<and> int_to_note [''a'', ''b''] k = Some v)"
    using int_to_note_two by simp
  show ?thesis
    using generator_length [OF h, of 3] by blast
qed

text \<open>
  C8. The seed position is drawn by \<^verbatim>\<open>numpy.random.randint(0, len(network_input)-1)\<close>,
  whose upper bound is excluded: whatever the random source draws, the position is
  never that of the last window. With two windows the seed is always the first; with
  one window the call raises.
\<close>

theorem seed_never_last_window:
  "map_sum id fst (pick_start network_input r) \<noteq> Inr (int (length network_input) - 1)
   \<and> map_sum id fst (pick_start [w0, w1] r) = Inr 0
   \<and> pick_start [w0] r = Inl ValueError"
proof -
  have never: "map_sum id fst (pick_start network_input r) \<noteq> Inr (int (length network_input) - 1)"
  proof (cases "int (length network_input) - 1 \<le> 0")
    case True
    then show ?thesis by (simp add: pick_start_def np_randint_def)
  next
    case False
    then have "int (r 0) mod (int (length network_input) - 1) < int (length network_input) - 1"
      by (intro pos_mod_bound) simp
    then have "int (r 0) mod (int (length network_input) - 1) \<noteq> int (length network_input) - 1"
      by linarith
    then show ?thesis
      using False by (simp add: pick_start_def np_randint_def next_raw_def)
  qed
  have two: "map_sum id fst (pick_start [w0, w1] r) = Inr 0"
    by (simp add: pick_start_def np_randint_def next_raw_def)
  have one: "pick_start [w0] r = Inl ValueError"
    by (simp add: pick_start_def np_randint_def)
  show ?thesis using never two one by blast
qed

text \<open>
  \<^verbatim>\<open>generate_notes\<close> itself, with its 500 rounds: given at least two windows, all of
  length \<open>L\<close>, it returns 500 tokens.
\<close>

lemma pick_start_range:
  assumes "2 \<le> length network_input"
  shows "\<exists>k. k + 1 < length network_input
           \<and> pick_start network_input r = Inr (int k, \<lambda>n. r (Suc n))"
proof -
  have pos: "0 < int (length network_input) - 1" using assms by simp
  define k where "k = r 0 mod (length network_input - 1)"
  have "k < length network_input - 1" using assms by (simp add: k_def)
  then have lt: "k + 1 < length network_input" by simp
  have "int (r 0) mod (int (length network_input) - 1) = int k"
    using assms by (simp add: k_def zmod_int of_nat_diff)
  then have "pick_start network_input r = Inr (int k, \<lambda>n. r (Suc n))"
    using pos by (simp add: pick_start_def np_randint_def next_raw_def)
  then show ?thesis using lt by blast
qed

lemma generate_notes_returns:
  assumes two: "2 \<le> length network_input"
    and len: "\<forall>w \<in> set network_input. length w = L"
    and ok: "\<forall>w. length w = L \<longrightarrow> (\<exists>k v. model w = Inr k \<and> int_to_note pitchnames k = Some v)"
  shows "\<exists>out r'. generate_notes model network_input pitchnames r = Inr (out, r')
           \<and> length out = 500"
proof -
  obtain k where k: "k + 1 < length network_input"
      "pick_start network_input r = Inr (int k, \<lambda>n. r (Suc n))"
    using pick_start_range [OF two] by blast
  have item: "py_item network_input (int k) = Inr (network_input ! k)"
    using k(1) by (simp add: py_item_nat)
  have seed: "length (network_input ! k) = L"
    using len k(1) by simp
  define st0 :: "'a gen_state" where
    "st0 = \<lparr> pattern = network_input ! k, prediction_output = [], model_inputs = [] \<rparr>"
  have "length (pattern st0) = L" using seed by (simp add: st0_def)
  from generate_loop_chain [OF ok this, of 500]
  obtain st' where st': "generate_loop model (int_to_note pitchnames) 500 st0 = Inr st'"
      "length (prediction_output st') = length (prediction_output st0) + 500"
    by blast
  have "generate_notes model network_input pitchnames r
          = Inr (prediction_output st', \<lambda>n. r (Suc n))"
    using k(2) item st'(1) by (simp add: generate_notes_def bind_err_def st0_def)
  moreover have "length (prediction_output st') = 500"
    using st'(2) by (simp add: st0_def)
  ultimately show ?thesis by blast
qed

section \<open>Properties of the duration literals\<close>

lemma set_duration_float:
  "float_literal d = Some v \<Longrightarrow>
   set_duration float_literal p d off = Inr (p\<lparr> quarterLength := QL_float v, offset := Some off \<rparr>)"
  by (simp add: set_duration_def)

lemma set_duration_third:
  "set_duration example_float p ''1/3'' ''2.0''
     = Inr (p\<lparr> quarterLength := QL_quotient 1 3, offset := Some ''2.0'' \<rparr>)"
  by (simp add: set_duration_def example_float_def py_split_sep_def py_item_def bind_err_def
        py_int_def int_strip_def int_space_def is_digit_def int_body_val_def digit_val_def
        true_div_overflows_def)

lemma split_at_nonempty: "split_at sep cur s \<noteq> []"
  by (induction s arbitrary: cur) auto

lemma set_duration_quotient:
  assumes "float_literal d = None" and "CHR ''/'' \<in> set d"
    and "py_int (hd (py_split_sep CHR ''/'' d)) = Inr a"
    and "py_int (last (py_split_sep CHR ''/'' d)) = Inr b"
  shows "set_duration float_literal p d off =
           (if b = 0 then Inl ZeroDivisionError
            else if true_div_overflows a b then Inl OverflowError
            else Inr (p\<lparr> quarterLength := QL_quotient a b, offset := Some off \<rparr>))"
proof -
  define q where "q = py_split_sep CHR ''/'' d"
  have ne: "q \<noteq> []" by (simp add: q_def py_split_sep_def split_at_nonempty)
  have first: "py_item q 0 = Inr (hd q)"
    using ne by (cases q) (simp_all add: py_item_def)
  have "py_item q (- int 1) = Inr (q ! (length q - 1))"
    using ne by (intro py_item_from_end) (auto simp: Suc_le_eq)
  then have lastq: "py_item q (- 1) = Inr (last q)"
    using ne by (simp add: last_conv_nth)
  show ?thesis
    using assms first lastq
    by (simp add: set_duration_def q_def [symmetric] bind_err_def Let_def)
qed

text \<open>
  C4 (third form). A duration literal that is neither a float literal nor contains a
  slash never reaches a duration by name: \<^verbatim>\<open>set_duration\<close> raises NameError for it,
  also for a name the library would accept such as \<^verbatim>\<open>quarter\<close>.
\<close>

theorem duration_by_name_raises:
  assumes "float_literal d = None" and "CHR ''/'' \<notin> set d"
  shows "set_duration float_literal p d off = Inl NameError"
  using assms by (simp add: set_duration_def)

theorem duration_by_name_raises_witness:
  "example_float ''quarter'' = None \<and> CHR ''/'' \<notin> set ''quarter''
   \<and> set_duration example_float
         \<lparr> is_chord = False, names = [''C4''], quarterLength = QL_default, offset = None \<rparr>
         ''quarter'' ''0.0'' = Inl NameError"
proof -
  have h1: "example_float ''quarter'' = None" by (simp add: example_float_def)
  have h2: "CHR ''/'' \<notin> set ''quarter''" by simp
  show ?thesis
    using h1 h2
      duration_by_name_raises [of example_float "''quarter''"
        "\<lparr> is_chord = False, names = [''C4''], quarterLength = QL_default, offset = None \<rparr>" "''0.0''"]
    by simp
qed

section \<open>The vocabulary of an empty corpus\<close>

text \<open>
  C6 (as the code computes it). For the empty token sequence the vocabulary is built
  without an error: it has no tokens, its size is zero, and no token and no id is
  mapped.
\<close>

theorem empty_corpus_vocabulary:
  "pitchnames_of ([] :: string list) = []
   \<and> n_vocab_of ([] :: string list) = 0
   \<and> note_to_int (pitchnames_of ([] :: string list)) = Map.empty
   \<and> int_to_note (pitchnames_of ([] :: string list)) = Map.empty"
  by (simp add: pitchnames_of_def n_vocab_of_def note_to_int_def int_to_note_def)

text \<open>
  On the empty token sequence \<^verbatim>\<open>train_network\<close> computes the vocabulary size 0 and
  enters \<^verbatim>\<open>prepare_sequences\<close>, whose loop over the built vocabulary returns with no
  sample. The exception that ends the run comes later and is another one: the
  ValueError of \<^verbatim>\<open>to_categorical\<close> on the empty list of targets.
\<close>

theorem empty_corpus_counterexample:
  "n_vocab_of ([] :: string list) = 0
   \<and> windowed_sequences 100 (note_to_int (pitchnames_of ([] :: string list))) [] = Inr ([], [])
   \<and> train_network_sequences ([] :: string list) = Inl ValueError"
  by (simp add: n_vocab_of_def windowed_sequences_def train_network_sequences_def
        lstm_prepare_sequences_def bind_err_def to_categorical_def)

section \<open>Tokens without pitches\<close>

lemma decode_token_short:
  assumes "length (py_split t) = 2 \<or> length (py_split t) = 3"
  shows "\<exists>d' o'. decode_token t = Inr (hd (py_split t), [], d', o')"
proof -
  define parts where "parts = py_split t"
  have len: "length parts = 2 \<or> length parts = 3" using assms by (simp add: parts_def)
  then have ne: "parts \<noteq> []" by auto
  have first: "py_item parts 0 = Inr (hd parts)"
    using ne by (cases parts) (simp_all add: py_item_def)
  have mid: "py_slice parts 1 (- 2) = []"
    using len by (auto simp: py_slice_middle)
  have d: "py_item parts (- 2) = Inr (parts ! (length parts - 2))"
    using py_item_from_end [of 2 parts] len by auto
  have l: "py_item parts (- 1) = Inr (parts ! (length parts - 1))"
    using py_item_from_end [of 1 parts] len by auto
  show ?thesis
    using first mid d l
    by (simp add: decode_token_def bind_err_def Let_def parts_def [symmetric])
qed

lemma concat_events_register:
  "concat (map snd (register_instrument key ins)) = concat (map snd ins)"
  by (simp add: register_instrument_def)

text \<open>
  C10 (as the code computes it). A token whose split has exactly two or three fields
  has an empty pitch slice. The loop body returns for it without raising; it only
  registers the instrument field, so the events held for all instruments are the same
  as before, and the loop goes on with the remaining tokens.
\<close>

theorem short_token_dropped:
  assumes "length (py_split t) = 2 \<or> length (py_split t) = 3"
  shows "decode_step float_literal pitch_ok ins t = Inr (register_instrument (hd (py_split t)) ins)
       \<and> concat (map snd (register_instrument (hd (py_split t)) ins)) = concat (map snd ins)
       \<and> decode_loop float_literal pitch_ok ins (t # rest)
           = decode_loop float_literal pitch_ok (register_instrument (hd (py_split t)) ins) rest"
proof -
  obtain d' o' where tok: "decode_token t = Inr (hd (py_split t), [], d', o')"
    using decode_token_short [OF assms] by blast
  have step: "decode_step float_literal pitch_ok ins t = Inr (register_instrument (hd (py_split t)) ins)"
    by (simp add: decode_step_def tok bind_err_def)
  have "decode_loop float_literal pitch_ok ins (t # rest)
           = decode_loop float_literal pitch_ok (register_instrument (hd (py_split t)) ins) rest"
    by (simp add: step bind_err_def)
  then show ?thesis
    using step concat_events_register by blast
qed

lemma split7: "py_split ''7 1.0 0.0'' = [''7'', ''1.0'', ''0.0'']"
  by (simp add: py_split_def is_space_def)


text \<open>
  The token \<^verbatim>\<open>7 1.0 0.0\<close> has three fields: it adds no event, and its instrument id
  alone gives a part without events.
\<close>

lemma short_token_empty_part:
  "decode_loop example_float example_pitch_ok [] [''7 1.0 0.0''] = Inr [(''7'', [])]
   \<and> assemble_parts example_library False example_from_program example_catalog
        [(''7'', [])] ([], draws_zero, [])
     = Inr ([\<lparr> time_signature = ''3/4'',
               part_instrument = \<lparr> instrumentName = Some ''Program'', midiProgram = Some 7 \<rparr>,
               part_events = [] \<rparr>], draws_zero, [])"
  by (simp add: decode_step_def decode_token_def split7 py_item_def py_slice_def
        slice_bound_def bind_err_def register_instrument_def resolve_instrument_def
        instrument_lookup_def example_from_program_def py_int_def int_strip_def int_space_def
        is_digit_def int_body_val_def digit_val_def)

theorem short_token_dropped_witness:
  "(length (py_split ''7 1.0 0.0'') = 2 \<or> length (py_split ''7 1.0 0.0'') = 3)
   \<and> decode_step example_float example_pitch_ok [] ''7 1.0 0.0'' = Inr [(''7'', [])]
   \<and> concat (map snd (register_instrument (hd (py_split ''7 1.0 0.0'')) ([] :: real instruments)))
        = concat (map snd ([] :: real instruments))
   \<and> decode_loop example_float example_pitch_ok [] [''7 1.0 0.0'', ''0 C4 1.0 0.0'']
        = decode_loop example_float example_pitch_ok [(''7'', [])] [''0 C4 1.0 0.0'']"
proof -
  have h: "length (py_split ''7 1.0 0.0'') = 2 \<or> length (py_split ''7 1.0 0.0'') = 3"
    by (simp add: split7)
  have reg: "register_instrument (hd (py_split ''7 1.0 0.0'')) ([] :: real instruments) = [(''7'', [])]"
    by (simp add: split7 register_instrument_def)
  note inst = short_token_dropped [OF h, of example_float example_pitch_ok "[]"
      "[''0 C4 1.0 0.0'']"]
  have step: "decode_step example_float example_pitch_ok [] ''7 1.0 0.0'' = Inr [(''7'', [])]"
    using inst unfolding reg by blast
  have loop: "decode_loop example_float example_pitch_ok [] [''7 1.0 0.0'', ''0 C4 1.0 0.0'']
        = decode_loop example_float example_pitch_ok [(''7'', [])] [''0 C4 1.0 0.0'']"
    using inst unfolding reg by blast
  have same: "concat (map snd (register_instrument (hd (py_split ''7 1.0 0.0'')) ([] :: real instruments)))
        = concat (map snd ([] :: real instruments))"
    using inst by blast
  show ?thesis
    using h step loop same by blast
qed

text \<open>
  A token with a single field also has an empty pitch slice, and for it the tuple of
  line 150 raises IndexError at \<^verbatim>\<open>parts[-2]\<close>; the whole reconstruction stops there.
\<close>

theorem short_token_counterexample:
  "py_slice (py_split ''7'') 1 (- 2) = [] \<and> decode_token ''7'' = Inl IndexError
   \<and> create_midi example_float example_pitch_ok example_from_program example_catalog
        example_library True [''7'', ''0 C4 1.0 0.0''] draws_zero = Inl IndexError"
  by (simp add: create_midi_def decode_step_def decode_token_def py_split_def is_space_def
        py_item_def py_slice_def slice_bound_def bind_err_def)

section \<open>Instrument resolution\<close>

lemma randint_catalog:
  assumes "catalog \<noteq> []"
  shows "randint 0 (int (length catalog) - 1) r = Inr (int (r 0 mod length catalog), \<lambda>n. r (Suc n))"
proof -
  have pos: "0 < length catalog" using assms by simp
  have k: "int (r 0) mod (int (length catalog) - 1 - 0 + 1) = int (r 0 mod length catalog)"
    by (simp add: zmod_int)
  show ?thesis
    using pos k by (simp add: randint_def next_raw_def)
qed

lemma py_item_catalog:
  assumes "catalog \<noteq> []"
  shows "py_item catalog (int (k mod length catalog)) = Inr (catalog ! (k mod length catalog))"
proof -
  have "k mod length catalog < length catalog" using assms by simp
  then show ?thesis by (simp add: py_item_def)
qed

lemma get_random_instrument_ok:
  assumes "catalog \<noteq> []"
  shows "get_random_instrument catalog r
           = Inr (catalog ! (r 0 mod length catalog), \<lambda>n. r (Suc n))"
  using randint_catalog [OF assms, of r] py_item_catalog [OF assms, of "r 0"]
  by (simp add: get_random_instrument_def bind_err_def)

lemma resolve_instrument_fallback:
  assumes "catalog \<noteq> []" and "instrument_lookup from_program key = None"
  shows "resolve_instrument from_program catalog key (r, printed)
           = Inr (catalog ! (r 0 mod length catalog), (\<lambda>n. r (Suc n)),
                  printed @ [key @ '': WARNING: invalid instrument!'',
                             str_opt (instrumentName (catalog ! (r 0 mod length catalog)))
                               @ '': INFO: selected random!''])"
  using assms(2) get_random_instrument_ok [OF assms(1), of r]
  by (simp add: resolve_instrument_def bind_err_def)

lemma resolve_instrument_total:
  assumes "catalog \<noteq> []"
  shows "\<exists>res. resolve_instrument from_program catalog key (r, printed) = Inr res"
proof (cases "instrument_lookup from_program key")
  case None
  then show ?thesis using resolve_instrument_fallback [OF assms None] by simp
next
  case (Some i)
  then show ?thesis by (simp add: resolve_instrument_def)
qed

lemma measure_parts_total:
  assumes "\<forall>p. \<exists>p'. regroup p = Inr p'"
  shows "\<exists>ps'. measure_parts regroup ps = Inr ps'"
proof (induction ps)
  case Nil
  then show ?case by simp
next
  case (Cons p ps)
  obtain p' where "regroup p = Inr p'" using assms by blast
  then show ?case using Cons by (auto simp: bind_err_def)
qed

lemma assemble_parts_total:
  assumes "catalog \<noteq> []"
    and "optimizer \<longrightarrow> (\<forall>p. \<exists>p'. makeMeasures lib p = Inr p')"
  shows "\<exists>res. assemble_parts lib optimizer from_program catalog ins st = Inr res"
proof (induction ins arbitrary: st)
  case Nil
  then show ?case by (cases st) simp
next
  case (Cons kv ins)
  obtain key events where kv: "kv = (key, events)" by (cases kv)
  obtain ms r printed where st: "st = (ms, r, printed)" by (cases st) auto
  obtain i r' printed' where res:
    "resolve_instrument from_program catalog key (r, printed) = Inr (i, r', printed')"
    using resolve_instrument_total [OF assms(1)] by (metis prod_cases3)
  define appended where
    "appended = ms @ [\<lparr> time_signature = ''3/4'', part_instrument = i, part_events = events \<rparr>]"
  show ?case
  proof (cases optimizer)
    case True
    then obtain ms' where ms': "measure_parts (makeMeasures lib) appended = Inr ms'"
      using assms(2) measure_parts_total [of "makeMeasures lib" appended] by blast
    show ?thesis
      using Cons.IH [of "(ms', r', printed')"] res ms' True
      by (simp add: kv st bind_err_def appended_def [symmetric] Let_def)
  next
    case False
    show ?thesis
      using Cons.IH [of "(appended, r', printed')"] res False
      by (simp add: kv st bind_err_def appended_def [symmetric] Let_def)
  qed
qed

text \<open>
  C5 (as the code computes it). With a non-empty catalog, an instrument id that does
  not resolve never makes the instrument resolution raise: the warning and the
  information line are printed, and the instrument of the part is the catalog entry
  at the position drawn from the random source. The assembly of the parts returns for
  every set of instrument ids when the optimizer flag is off, and also when it is on
  and the library's regrouping of a part into measures does not raise.
\<close>

theorem fallback_instrument:
  assumes "catalog \<noteq> []" and "instrument_lookup from_program key = None"
  shows "resolve_instrument from_program catalog key (r, printed)
           = Inr (catalog ! (r 0 mod length catalog), (\<lambda>n. r (Suc n)),
                  printed @ [key @ '': WARNING: invalid instrument!'',
                             str_opt (instrumentName (catalog ! (r 0 mod length catalog)))
                               @ '': INFO: selected random!''])
       \<and> ((optimizer \<longrightarrow> (\<forall>p. \<exists>p'. makeMeasures lib p = Inr p'))
            \<longrightarrow> (\<exists>res. assemble_parts lib optimizer from_program catalog ins
                         (midi_stream, r, printed) = Inr res))"
  using resolve_instrument_fallback [OF assms] assemble_parts_total [OF assms(1)]
  by blast

lemma py_int_200: "py_int ''200'' = Inr 200"
  by (simp add: py_int_def int_strip_def int_space_def is_digit_def int_body_val_def digit_val_def)

lemma lookup_200: "instrument_lookup example_from_program ''200'' = None"
  by (simp add: instrument_lookup_def py_int_200 example_from_program_def)

lemma split_200: "py_split ''200 C4 1.0 0.0'' = [''200'', ''C4'', ''1.0'', ''0.0'']"
  by (simp add: py_split_def is_space_def)

lemma decode_200:
  "decode_loop example_float example_pitch_ok [] [''200 C4 1.0 0.0'']
     = Inr [(''200'', [\<lparr> is_chord = False, names = [''C4''], quarterLength = QL_float 1,
                           offset = Some ''0.0'' \<rparr>])]"
  by (simp add: decode_step_def decode_token_def split_200 py_item_def py_slice_def
        slice_bound_def bind_err_def register_instrument_def append_event_def new_note_def
        example_pitch_ok_def set_duration_def example_float_def)

theorem fallback_instrument_witness:
  "example_catalog \<noteq> [] \<and> instrument_lookup example_from_program ''200'' = None
   \<and> resolve_instrument example_from_program example_catalog ''200'' (draws_one, [])
        = Inr (\<lparr> instrumentName = Some ''Organ'', midiProgram = Some 19 \<rparr>, (\<lambda>n. draws_one (Suc n)),
               [''200: WARNING: invalid instrument!'', ''Organ: INFO: selected random!''])
   \<and> (\<exists>res. assemble_parts example_library False example_from_program example_catalog
               [(''200'', [])] ([], draws_one, []) = Inr res)"
proof -
  have h1: "example_catalog \<noteq> []" by (simp add: example_catalog_def)
  have pick: "example_catalog ! (draws_one 0 mod length example_catalog)
                = \<lparr> instrumentName = Some ''Organ'', midiProgram = Some 19 \<rparr>"
    by (simp add: example_catalog_def draws_one_def)
  note inst = fallback_instrument [OF h1 lookup_200, of draws_one "[]" False example_library
      "[(''200'', [])]" "[]"]
  have r: "resolve_instrument example_from_program example_catalog ''200'' (draws_one, [])
        = Inr (\<lparr> instrumentName = Some ''Organ'', midiProgram = Some 19 \<rparr>, (\<lambda>n. draws_one (Suc n)),
               [''200: WARNING: invalid instrument!'', ''Organ: INFO: selected random!''])"
    using inst by (simp add: pick str_opt_def)
  have e: "\<exists>res. assemble_parts example_library False example_from_program example_catalog
               [(''200'', [])] ([], draws_one, []) = Inr res"
    using inst by blast
  show ?thesis
    using h1 lookup_200 r e by blast
qed

text \<open>
  The token \<^verbatim>\<open>200 C4 1.0 0.0\<close> decodes to the instrument id 200, which no program
  resolves; with two states of the random source the resolution gives two different
  instruments.
\<close>

theorem fallback_instrument_counterexample:
  "decode_loop example_float example_pitch_ok [] [''200 C4 1.0 0.0'']
     = Inr [(''200'', [\<lparr> is_chord = False, names = [''C4''], quarterLength = QL_float 1,
                           offset = Some ''0.0'' \<rparr>])]
   \<and> map_sum id fst
        (resolve_instrument example_from_program example_catalog ''200'' (draws_zero, []))
     \<noteq> map_sum id fst
        (resolve_instrument example_from_program example_catalog ''200'' (draws_one, []))"
  unfolding decode_200
  by (simp add: bind_err_def resolve_instrument_def lookup_200
        get_random_instrument_def randint_def next_raw_def example_catalog_def py_item_def
        draws_zero_def draws_one_def)

section \<open>Event extraction and the random source\<close>

lemma top_step_named:
  assumes "ri \<noteq> []" and "names_instrument item"
  shows "top_step ri (notes, r) item = Inr (notes @ declared_tokens item, \<lambda>n. r (Suc n))"
proof (cases item)
  case (TopNote p q off)
  then show ?thesis using assms(2) by simp
next
  case (TopPart declared es)
  then obtain ins where d: "declared = Some ins" and nm: "instrumentName ins \<noteq> None"
    using assms(2) by (cases declared) auto
  show ?thesis
    using nm by (simp add: top_step_def TopPart d randint_catalog [OF assms(1)]
          py_item_catalog [OF assms(1)] bind_err_def)
next
  case TopOther
  then show ?thesis
    by (simp add: top_step_def randint_catalog [OF assms(1)]
          py_item_catalog [OF assms(1)] bind_err_def)
qed

lemma top_loop_named:
  assumes "ri \<noteq> []" and "list_all names_instrument items"
  shows "top_loop ri (notes, r) items
           = Inr (notes @ concat (map declared_tokens items), \<lambda>n. r (n + length items))"
  using assms(2)
proof (induction items arbitrary: "notes" r)
  case Nil
  then show ?case by simp
next
  case (Cons item items)
  have step: "top_step ri (notes, r) item = Inr (notes @ declared_tokens item, \<lambda>n. r (Suc n))"
    using Cons.prems top_step_named [OF assms(1)] by simp
  have rest: "list_all names_instrument items" using Cons.prems by simp
  show ?case
    using Cons.IH [OF rest, of "notes @ declared_tokens item" "\<lambda>n. r (Suc n)"]
    by (simp add: step bind_err_def)
qed

lemma get_notes_loop_named:
  assumes "ri \<noteq> []" and "list_all (list_all names_instrument) files"
  shows "get_notes_loop ri (notes, r) files
           = Inr (notes @ concat (map declared_tokens (concat files)),
                  \<lambda>n. r (n + length (concat files)))"
  using assms(2)
proof (induction files arbitrary: "notes" r)
  case Nil
  then show ?case by simp
next
  case (Cons doc files)
  have doc: "list_all names_instrument doc" and rest: "list_all (list_all names_instrument) files"
    using Cons.prems by simp_all
  show ?case
    using Cons.IH [OF rest, of "notes @ concat (map declared_tokens doc)" "\<lambda>n. r (n + length doc)"]
    by (simp add: top_loop_named [OF assms(1) doc] bind_err_def ac_simps)
qed

text \<open>
  C7 (as the code computes it). When every top-level element of every file is a part
  whose instrument has a name, or is neither a note nor a part, the token list is a
  function of the files alone: it is the same for every random source.
\<close>

theorem extraction_named_parts:
  assumes "ri \<noteq> []" and "list_all (list_all names_instrument) files"
  shows "map_sum id fst (get_notes ri files r) = Inr (concat (map declared_tokens (concat files)))"
  using get_notes_loop_named [OF assms, of "[]" r]
  by (simp add: get_notes_def)

lemma str_int_0: "str_int 0 = ''0''"
  by (simp add: str_int_def digits.simps [of 0] digit_char_def)

theorem extraction_named_parts_witness:
  "example_catalog \<noteq> []
   \<and> list_all (list_all names_instrument)
        [[TopPart (Some \<lparr> instrumentName = Some ''Piano'', midiProgram = Some 0 \<rparr>)
            [NoteElement ''C4'' ''1.0'' ''0.0'', ChordElement [''C4'', ''E4''] ''0.5'' ''1.0'',
             OtherElement],
          TopOther]]
   \<and> map_sum id fst
        (get_notes example_catalog
           [[TopPart (Some \<lparr> instrumentName = Some ''Piano'', midiProgram = Some 0 \<rparr>)
               [NoteElement ''C4'' ''1.0'' ''0.0'', ChordElement [''C4'', ''E4''] ''0.5'' ''1.0'',
                OtherElement],
             TopOther]] draws_one)
       = Inr [''0 C4 1.0 0.0'', ''0 C4 E4 0.5 1.0'']"
proof -
  have h1: "example_catalog \<noteq> []" by (simp add: example_catalog_def)
  have h2: "list_all (list_all names_instrument)
        [[TopPart (Some \<lparr> instrumentName = Some ''Piano'', midiProgram = Some 0 \<rparr>)
            [NoteElement ''C4'' ''1.0'' ''0.0'', ChordElement [''C4'', ''E4''] ''0.5'' ''1.0'',
             OtherElement],
          TopOther]]" by simp
  show ?thesis
    using h1 h2 extraction_named_parts [OF h1 h2, of draws_one]
    by (simp add: note_token_def chord_token_def format_token_def str_opt_int_def str_int_0)
qed


text \<open>
  A part whose instrument has no name takes the MIDI program of the drawn instrument
  class: two random sources give two token lists for the same file.
\<close>

lemma str_int_19: "str_int 19 = ''19''"
  by (simp add: str_int_def digits.simps [of 19] digits.simps [of "Suc 0"]
          digit_char_def)

theorem extraction_counterexample:
  "map_sum id fst
     (get_notes example_catalog
        [[TopPart (Some \<lparr> instrumentName = None, midiProgram = None \<rparr>)
            [NoteElement ''C4'' ''1.0'' ''0.0'']]] draws_zero)
   \<noteq> map_sum id fst
     (get_notes example_catalog
        [[TopPart (Some \<lparr> instrumentName = None, midiProgram = None \<rparr>)
            [NoteElement ''C4'' ''1.0'' ''0.0'']]] draws_one)"
  by (simp add: get_notes_def top_step_def randint_def next_raw_def py_item_def bind_err_def
        example_catalog_def draws_zero_def draws_one_def note_token_def format_token_def
        str_int_19 str_opt_int_def)

end
